theory Spec2Isabelle
  imports Complex_Main
begin

section \<open>Python values, exceptions and results\<close>

text \<open>
  The record handed to \<^verbatim>\<open>predict_dropout_risk\<close> is a Python dict from field names to
  loosely typed values. Numbers are exact: a Python float is modelled by the real it
  denotes, so rounding errors of the binary representation and NaN are outside the model.
\<close>

datatype pyval = PInt int | PFloat real | PStr string | PNone

text \<open>
  The exception classes that occur. All of them derive from \<^verbatim>\<open>Exception\<close>, which is
  what the handler \<^verbatim>\<open>except Exception\<close> catches; \<^verbatim>\<open>KeyboardInterrupt\<close> and
  \<^verbatim>\<open>SystemExit\<close>, which do not, are outside the model.
\<close>

datatype py_exception =
  KeyError string | TypeError | AttributeError | IndexError | ValueError | OverflowError
  | OtherException string

type_synonym 'a result = "py_exception + 'a"

definition bind_result :: "'a result \<Rightarrow> ('a \<Rightarrow> 'b result) \<Rightarrow> 'b result" where
  "bind_result r f = (case r of Inl e \<Rightarrow> Inl e | Inr v \<Rightarrow> f v)"

type_synonym student_data = "string \<rightharpoonup> pyval"

text \<open>\<^verbatim>\<open>d.get(k, default)\<close> and \<^verbatim>\<open>d[k]\<close>.\<close>

definition dict_get :: "student_data \<Rightarrow> string \<Rightarrow> pyval \<Rightarrow> pyval" where
  "dict_get d k dflt = (case d k of None \<Rightarrow> dflt | Some v \<Rightarrow> v)"

definition dict_getitem :: "student_data \<Rightarrow> string \<Rightarrow> pyval result" where
  "dict_getitem d k = (case d k of None \<Rightarrow> Inl (KeyError k) | Some v \<Rightarrow> Inr v)"

text \<open>
  The operators the source applies to field values, each with an integer literal on the
  right: \<^verbatim>\<open>v * n\<close> (a string is repeated), \<^verbatim>\<open>v / n\<close> (true division, always a float)
  and \<^verbatim>\<open>v >= n\<close>.

  A Python int is unbounded, a float is not: the true division of two ints raises
  \<^verbatim>\<open>OverflowError\<close> when the quotient, rounded to a float, would reach \<open>2 ^ 1024\<close>, that
  is from half a unit in the last place above the largest float.
\<close>

definition float_overflow_bound :: real where
  "float_overflow_bound = 2 ^ 1024 - 2 ^ 970"

fun py_mul :: "pyval \<Rightarrow> int \<Rightarrow> pyval result" where
  "py_mul (PInt i) n = Inr (PInt (i * n))"
| "py_mul (PFloat x) n = Inr (PFloat (x * of_int n))"
| "py_mul (PStr s) n = Inr (PStr (concat (replicate (nat n) s)))"
| "py_mul PNone n = Inl TypeError"

fun py_truediv :: "pyval \<Rightarrow> int \<Rightarrow> pyval result" where
  "py_truediv (PInt i) n =
     (if n = 0 then Inl (OtherException ''ZeroDivisionError'')
      else if float_overflow_bound \<le> \<bar>of_int i / of_int n\<bar> then Inl OverflowError
      else Inr (PFloat (of_int i / of_int n)))"
| "py_truediv (PFloat x) n =
     (if n = 0 then Inl (OtherException ''ZeroDivisionError'')
      else Inr (PFloat (x / of_int n)))"
| "py_truediv (PStr s) n = Inl TypeError"
| "py_truediv PNone n = Inl TypeError"

fun py_ge :: "pyval \<Rightarrow> int \<Rightarrow> bool result" where
  "py_ge (PInt i) n = Inr (n \<le> i)"
| "py_ge (PFloat x) n = Inr (of_int n \<le> x)"
| "py_ge (PStr s) n = Inl TypeError"
| "py_ge PNone n = Inl TypeError"

fun py_lt :: "pyval \<Rightarrow> int \<Rightarrow> bool result" where
  "py_lt (PInt i) n = Inr (i < n)"
| "py_lt (PFloat x) n = Inr (x < of_int n)"
| "py_lt (PStr s) n = Inl TypeError"
| "py_lt PNone n = Inl TypeError"

fun py_gt :: "pyval \<Rightarrow> int \<Rightarrow> bool result" where
  "py_gt (PInt i) n = Inr (n < i)"
| "py_gt (PFloat x) n = Inr (of_int n < x)"
| "py_gt (PStr s) n = Inl TypeError"
| "py_gt PNone n = Inl TypeError"

text \<open>
  The builtins \<^verbatim>\<open>min(n, v)\<close> and \<^verbatim>\<open>max(n, v)\<close> with an integer literal first: the
  literal is kept unless the second argument is strictly smaller (strictly greater).
\<close>

definition py_min :: "int \<Rightarrow> pyval \<Rightarrow> pyval result" where
  "py_min n v = bind_result (py_lt v n) (\<lambda>b. Inr (if b then v else PInt n))"

definition py_max :: "int \<Rightarrow> pyval \<Rightarrow> pyval result" where
  "py_max n v = bind_result (py_gt v n) (\<lambda>b. Inr (if b then v else PInt n))"

text \<open>
  \<^verbatim>\<open>round(v, ndigits)\<close>: an int is returned unchanged (for \<open>ndigits \<ge> 0\<close>), a float is
  rounded to \<open>n\<close> decimal places, a tie going to the even neighbour, and
  anything else raises \<^verbatim>\<open>TypeError\<close>.
\<close>

definition round_half_even :: "real \<Rightarrow> int" where
  "round_half_even y =
     (let f = \<lfloor>y\<rfloor>; d = y - of_int f
      in if d < 1/2 then f else if 1/2 < d then f + 1
         else if even f then f else f + 1)"

fun py_round :: "pyval \<Rightarrow> nat \<Rightarrow> pyval result" where
  "py_round (PInt i) n = Inr (PInt i)"
| "py_round (PFloat x) n = Inr (PFloat (of_int (round_half_even (x * 10 ^ n)) / 10 ^ n))"
| "py_round (PStr s) n = Inl TypeError"
| "py_round PNone n = Inl TypeError"

text \<open>
  \<^verbatim>\<open>np.random.uniform(low, high)\<close> scales a draw \<open>r\<close> of the generator from \<open>[0, 1)\<close>.
  The generator belongs to numpy; its draw is a parameter of the model.
\<close>

definition np_random_uniform :: "real \<Rightarrow> real \<Rightarrow> real \<Rightarrow> real" where
  "np_random_uniform low high r = low + (high - low) * r"

section \<open>The course table\<close>

definition course_mapping :: "(string \<times> int) list" where
  "course_mapping =
     [(''Computer Science'', 1),
      (''Engineering'', 2),
      (''Medicine'', 3),
      (''Law'', 4),
      (''Business Administration'', 5),
      (''Business'', 5),
      (''Education'', 6),
      (''Agriculture'', 7)]"

text \<open>
  \<^verbatim>\<open>_map_course_to_number\<close>: \<^verbatim>\<open>course_mapping.get(course_name, 1)\<close>. The keys are
  strings, so a value that is not a string finds none of them.
\<close>

fun map_course_to_number :: "pyval \<Rightarrow> int" where
  "map_course_to_number (PStr s) =
     (case map_of course_mapping s of None \<Rightarrow> 1 | Some c \<Rightarrow> c)"
| "map_course_to_number v = 1"

section \<open>The scoring capability\<close>

text \<open>
  \<^verbatim>\<open>ml_model\<close> is an object supplied by the caller. The source uses it in two
  expressions only, \<^verbatim>\<open>ml_model.predict_proba(X)[0, 1]\<close> and \<^verbatim>\<open>ml_model.predict(X)[0]\<close>.
  A field of the record is \<open>None\<close> when the object has no such attribute. Otherwise it
  gives, for the feature row \<open>X\<close>, what the whole expression does: it raises (inside the
  call, or in the subscript when the output has the wrong shape: \<^verbatim>\<open>IndexError\<close>,
  \<^verbatim>\<open>TypeError\<close>), or it evaluates to the selected entry.
\<close>

record ml_model =
  predict_proba :: "(pyval list \<Rightarrow> pyval result) option"
  predict :: "(pyval list \<Rightarrow> pyval result) option"

text \<open>Looking up an attribute the object does not have raises \<^verbatim>\<open>AttributeError\<close>.\<close>

definition predict_proba_expr :: "ml_model \<Rightarrow> pyval list \<Rightarrow> pyval result" where
  "predict_proba_expr m X =
     (case predict_proba m of None \<Rightarrow> Inl AttributeError | Some f \<Rightarrow> f X)"

definition predict_expr :: "ml_model \<Rightarrow> pyval list \<Rightarrow> pyval result" where
  "predict_expr m X =
     (case predict m of None \<Rightarrow> Inl AttributeError | Some f \<Rightarrow> f X)"

section \<open>Feature construction\<close>

definition expected_features :: "string list" where
  "expected_features =
     [''Age'', ''Gender'', ''Course_Chosen'', ''Residence_Location'',
      ''Semester_Average_Grade'', ''Parental_Income_Level'', ''Attendance'',
      ''Marital_Status'', ''Course_Failures'', ''Financial_Stress'',
      ''Attendance_Compliance'', ''Rural_Disadvantage'']"

text \<open>
  The dict display \<^verbatim>\<open>features = {...}\<close>: its entries are evaluated in the order written,
  and the first one that raises ends the evaluation.
\<close>

definition features :: "student_data \<Rightarrow> (string \<times> pyval) list result" where
  "features d =
     (let age = dict_get d ''age'' (PInt 20);
          gender = PInt 1;
          course = PInt (map_course_to_number (dict_get d ''course'' (PStr ''Computer Science'')));
          residence = PInt (if dict_get d ''residence'' (PStr ''Urban'') = PStr ''Rural'' then 1 else 0)
      in
      bind_result (dict_getitem d ''gpa'') (\<lambda>gpa.
      bind_result (py_mul gpa 25) (\<lambda>grade.
      bind_result (py_truediv (dict_get d ''parental_income'' (PInt 300000)) 50000) (\<lambda>income.
      bind_result (dict_getitem d ''attendance'') (\<lambda>attendance.
      bind_result (dict_getitem d ''failures'') (\<lambda>failures.
      bind_result (py_truediv (dict_get d ''parental_income'' (PInt 300000)) 200000) (\<lambda>stress.
      bind_result (dict_getitem d ''attendance'') (\<lambda>attendance'.
      bind_result (py_ge attendance' 75) (\<lambda>compliant.
      (let rural = PInt (if dict_get d ''residence'' (PStr ''Urban'') = PStr ''Rural'' then 1 else 0)
       in Inr
        [(''Age'', age),
         (''Gender'', gender),
         (''Course_Chosen'', course),
         (''Residence_Location'', residence),
         (''Semester_Average_Grade'', grade),
         (''Parental_Income_Level'', income),
         (''Attendance'', attendance),
         (''Marital_Status'', PInt 0),
         (''Course_Failures'', failures),
         (''Financial_Stress'', stress),
         (''Attendance_Compliance'', PInt (if compliant then 1 else 0)),
         (''Rural_Disadvantage'', rural)]))))))))))"

text \<open>
  \<^verbatim>\<open>pd.DataFrame([features])[expected_features]\<close>: the one row, its columns selected in
  the order of the list; a name that is not a column raises \<^verbatim>\<open>KeyError\<close>.
\<close>

fun select_columns :: "(string \<times> pyval) list \<Rightarrow> string list \<Rightarrow> pyval list result" where
  "select_columns row [] = Inr []"
| "select_columns row (c # cs) =
     (case map_of row c of
        None \<Rightarrow> Inl (KeyError c)
      | Some v \<Rightarrow> bind_result (select_columns row cs) (\<lambda>vs. Inr (v # vs)))"

definition build_features :: "student_data \<Rightarrow> pyval list result" where
  "build_features d = bind_result (features d) (\<lambda>row. select_columns row expected_features)"

section \<open>The risk scorer\<close>

text \<open>
  The inner \<^verbatim>\<open>try\<close>: the probability expression first; the handler
  \<^verbatim>\<open>except AttributeError\<close> evaluates the value expression and clamps it with
  \<^verbatim>\<open>max(0, min(1, risk_score))\<close>. Any other exception leaves the inner \<^verbatim>\<open>try\<close>, and
  so does one raised in the handler.
\<close>

definition raw_risk_score :: "ml_model \<Rightarrow> pyval list \<Rightarrow> pyval result" where
  "raw_risk_score m X =
     (case predict_proba_expr m X of
        Inl AttributeError \<Rightarrow>
          bind_result (predict_expr m X) (\<lambda>risk_score.
          bind_result (py_min 1 risk_score) (\<lambda>lo. py_max 0 lo))
      | Inl e \<Rightarrow> Inl e
      | Inr risk_score \<Rightarrow> Inr risk_score)"

text \<open>The body of the outer \<^verbatim>\<open>try\<close>.\<close>

definition try_body :: "student_data \<Rightarrow> ml_model \<Rightarrow> pyval result" where
  "try_body d m =
     bind_result (build_features d) (\<lambda>X.
     bind_result (raw_risk_score m X) (\<lambda>risk_score. py_round risk_score 2))"

text \<open>
  \<^verbatim>\<open>predict_dropout_risk(student_data, ml_model=None)\<close>, with the generator's draw \<open>r\<close>.
  Without a capability it returns at once. Otherwise \<^verbatim>\<open>except Exception\<close> turns every
  exception of the body into the score \<^verbatim>\<open>0.5\<close> (after printing it, which does not
  change the result).
\<close>

definition predict_dropout_risk :: "student_data \<Rightarrow> ml_model option \<Rightarrow> real \<Rightarrow> pyval result" where
  "predict_dropout_risk d ml r =
     (case ml of
        None \<Rightarrow> py_round (PFloat (np_random_uniform 0.1 0.9 r)) 2
      | Some m \<Rightarrow>
          (case try_body d m of
             Inl e \<Rightarrow> Inr (PFloat 0.5)
           | Inr score \<Rightarrow> Inr score))"

section \<open>The strategy selector\<close>

definition get_intervention_strategy :: "real \<Rightarrow> string" where
  "get_intervention_strategy risk_score =
     (if risk_score > 0.7 then
        '' CRITICAL: Immediate counseling, financial aid assessment, parental notification''
      else if risk_score > 0.4 then
        '' MODERATE: Academic counseling, tutoring, attendance monitoring''
      else
        '' LOW: Regular check-ins, progress monitoring'')"

section \<open>Vocabulary of the properties\<close>

text \<open>A Python number, the real it denotes, and the two conditions on a risk score.\<close>

definition is_number :: "pyval \<Rightarrow> bool" where
  "is_number v = (case v of PInt i \<Rightarrow> True | PFloat x \<Rightarrow> True | PStr s \<Rightarrow> False | PNone \<Rightarrow> False)"

fun real_of_pyval :: "pyval \<Rightarrow> real" where
  "real_of_pyval (PInt i) = of_int i"
| "real_of_pyval (PFloat x) = x"
| "real_of_pyval (PStr s) = 0"
| "real_of_pyval PNone = 0"

definition in_unit_interval :: "pyval \<Rightarrow> bool" where
  "in_unit_interval v = (is_number v \<and> 0 \<le> real_of_pyval v \<and> real_of_pyval v \<le> 1)"

fun two_decimals :: "pyval \<Rightarrow> bool" where
  "two_decimals (PInt i) = True"
| "two_decimals (PFloat x) = (of_int \<lfloor>x * 100\<rfloor> = x * 100)"
| "two_decimals (PStr s) = False"
| "two_decimals PNone = False"

text \<open>
  A value whose true division by \<open>n\<close> does not leave the range of a float: any float, and
  an int with a quotient below the bound.
\<close>

definition quotient_in_float_range :: "pyval \<Rightarrow> int \<Rightarrow> bool" where
  "quotient_in_float_range v n =
     (case v of
        PInt i \<Rightarrow> \<bar>of_int i / of_int n\<bar> < float_overflow_bound
      | PFloat x \<Rightarrow> True
      | PStr s \<Rightarrow> True
      | PNone \<Rightarrow> True)"

text \<open>
  The clamp of the value shape, as a function of the number: at most 0 gives the literal
  \<open>0\<close>, at least 1 the literal \<open>1\<close>, anything between is kept.
\<close>

definition clamp01 :: "pyval \<Rightarrow> pyval" where
  "clamp01 v =
     (if real_of_pyval v \<le> 0 then PInt 0 else if 1 \<le> real_of_pyval v then PInt 1 else v)"

section \<open>Example inputs\<close>

text \<open>The record of the specification's encoding example, and its feature row.\<close>

definition example_record :: student_data where
  "example_record =
     [''gpa'' \<mapsto> PFloat 3.2, ''attendance'' \<mapsto> PFloat 85.5, ''failures'' \<mapsto> PInt 1,
      ''residence'' \<mapsto> PStr ''Urban'', ''parental_income'' \<mapsto> PInt 450000,
      ''course'' \<mapsto> PStr ''Computer Science'', ''age'' \<mapsto> PInt 20]"

definition example_features :: "pyval list" where
  "example_features =
     [PInt 20, PInt 1, PInt 1, PInt 0, PFloat 80.0, PFloat 9.0, PFloat 85.5, PInt 0, PInt 1,
      PFloat 2.25, PInt 1, PInt 0]"

text \<open>
  A capability whose two expressions do the same for every feature row: \<open>None\<close> for a
  missing attribute, otherwise the exception raised or the entry selected.
\<close>

definition constant_model :: "pyval result option \<Rightarrow> pyval result option \<Rightarrow> ml_model" where
  "constant_model a b =
     \<lparr>predict_proba = map_option (\<lambda>outcome X. outcome) a,
      predict = map_option (\<lambda>outcome X. outcome) b\<rparr>"

section \<open>True division\<close>

lemma py_truediv_in_range:
  assumes "is_number v" "quotient_in_float_range v n" "n \<noteq> 0"
  shows "py_truediv v n = Inr (PFloat (real_of_pyval v / of_int n))"
  using assms by (cases v) (simp_all add: is_number_def quotient_in_float_range_def)

lemma quotient_in_float_range_mono:
  assumes "quotient_in_float_range v n" "0 < n" "n \<le> k"
  shows "quotient_in_float_range v k"
proof (cases v)
  case (PInt i)
  have "\<bar>of_int i / of_int k\<bar> \<le> \<bar>(of_int i :: real) / of_int n\<bar>"
    using assms(2,3) by (simp add: frac_le)
  then show ?thesis
    using assms(1) PInt by (simp add: quotient_in_float_range_def)
qed (simp_all add: quotient_in_float_range_def)

lemma py_truediv_overflow: "py_truediv (PInt (10 ^ 400)) 50000 = Inl OverflowError"
  by (simp add: float_overflow_bound_def)

section \<open>Rounding\<close>

lemma round_half_even_lower: "of_int k \<le> y \<Longrightarrow> k \<le> round_half_even y"
proof -
  assume "of_int k \<le> y"
  then have "k \<le> \<lfloor>y\<rfloor>" by (simp add: le_floor_iff)
  then show ?thesis by (simp add: round_half_even_def Let_def)
qed

lemma round_half_even_upper: "y \<le> of_int k \<Longrightarrow> round_half_even y \<le> k"
  unfolding round_half_even_def Let_def
  by (auto simp: floor_le_iff)

lemma py_round_unit:
  "in_unit_interval v \<Longrightarrow> \<exists>w. py_round v 2 = Inr w \<and> in_unit_interval w \<and> two_decimals w"
proof (cases v)
  case (PFloat x)
  assume "in_unit_interval v"
  with PFloat have x: "0 \<le> x" "x \<le> 1" by (simp_all add: in_unit_interval_def)
  have "of_int 0 \<le> x * 100" using x by simp
  then have lo: "0 \<le> round_half_even (x * 100)" by (rule round_half_even_lower)
  have "x * 100 \<le> of_int 100" using x by simp
  then have hi: "round_half_even (x * 100) \<le> 100" by (rule round_half_even_upper)
  show ?thesis using PFloat lo hi
    by (simp add: in_unit_interval_def is_number_def)
qed (simp_all add: in_unit_interval_def is_number_def)

section \<open>The course table: claim C8\<close>

lemma map_of_course_None:
  "s \<notin> set (map fst course_mapping) \<Longrightarrow> map_of course_mapping s = None"
  by (simp add: map_of_eq_None_iff)

text \<open>
  C8. The course code is an exact, case-sensitive match on the table Computer Science 1,
  Engineering 2, Medicine 3, Law 4, Business Administration 5, Business 5, Education 6,
  Agriculture 7; every course name that is not a key of the table, such as a variant in
  another case, gets the fallback code 1.
\<close>

theorem C8_course_mapping:
  "map_course_to_number (PStr ''Computer Science'') = 1
   \<and> map_course_to_number (PStr ''Engineering'') = 2
   \<and> map_course_to_number (PStr ''Medicine'') = 3
   \<and> map_course_to_number (PStr ''Law'') = 4
   \<and> map_course_to_number (PStr ''Business Administration'') = 5
   \<and> map_course_to_number (PStr ''Business'') = 5
   \<and> map_course_to_number (PStr ''Education'') = 6
   \<and> map_course_to_number (PStr ''Agriculture'') = 7
   \<and> (s \<notin> set (map fst course_mapping) \<longrightarrow> map_course_to_number (PStr s) = 1)
   \<and> map_course_to_number (PStr ''engineering'') = 1
   \<and> map_course_to_number (PStr ''LAW'') = 1"
  by (simp add: map_of_course_None) (simp add: course_mapping_def)

theorem C8_course_mapping_witness:
  "''Physics'' \<notin> set (map fst course_mapping)
   \<and> map_course_to_number (PStr ''Physics'') = 1"
  using C8_course_mapping [of "''Physics''"] by (simp add: course_mapping_def)

section \<open>The strategy selector: claim C3\<close>

text \<open>
  C3. \<open>get_intervention_strategy\<close> is defined on every real: a risk above 0.70 gives the
  CRITICAL text, a risk above 0.40 and at most 0.70 the MODERATE text, any other risk the
  LOW text; 0.71 is CRITICAL, 0.70 and 0.41 are MODERATE, 0.40 is LOW.
\<close>

theorem C3_strategy:
  "(0.7 < risk \<longrightarrow> get_intervention_strategy risk =
      '' CRITICAL: Immediate counseling, financial aid assessment, parental notification'')
   \<and> (0.4 < risk \<and> risk \<le> 0.7 \<longrightarrow> get_intervention_strategy risk =
      '' MODERATE: Academic counseling, tutoring, attendance monitoring'')
   \<and> (risk \<le> 0.4 \<longrightarrow> get_intervention_strategy risk =
      '' LOW: Regular check-ins, progress monitoring'')
   \<and> get_intervention_strategy 0.71 =
      '' CRITICAL: Immediate counseling, financial aid assessment, parental notification''
   \<and> get_intervention_strategy 0.70 =
      '' MODERATE: Academic counseling, tutoring, attendance monitoring''
   \<and> get_intervention_strategy 0.41 =
      '' MODERATE: Academic counseling, tutoring, attendance monitoring''
   \<and> get_intervention_strategy 0.40 =
      '' LOW: Regular check-ins, progress monitoring''"
  by (simp add: get_intervention_strategy_def)

theorem C3_strategy_witness:
  "(0.7 < (0.95::real) \<and> get_intervention_strategy 0.95 =
      '' CRITICAL: Immediate counseling, financial aid assessment, parental notification'')
   \<and> ((0.4::real) < 0.55 \<and> (0.55::real) \<le> 0.7 \<and> get_intervention_strategy 0.55 =
      '' MODERATE: Academic counseling, tutoring, attendance monitoring'')
   \<and> ((0.1::real) \<le> 0.4 \<and> get_intervention_strategy 0.1 =
      '' LOW: Regular check-ins, progress monitoring'')"
  using C3_strategy [of "0.95"] C3_strategy [of "0.55"] C3_strategy [of "0.1"] by simp

section \<open>Demo mode: claims C7 and C10\<close>

lemma demo_score:
  assumes "0 \<le> r" "r < 1"
  obtains n where "predict_dropout_risk d None r = Inr (PFloat (of_int n / 100))"
    and "10 \<le> n" and "n \<le> 90"
proof -
  define u where "u = np_random_uniform 0.1 0.9 r"
  have u: "0.1 \<le> u" "u \<le> 0.9"
    using assms by (simp_all add: u_def np_random_uniform_def)
  have "of_int 10 \<le> u * 100" using u by simp
  then have lo: "10 \<le> round_half_even (u * 100)" by (rule round_half_even_lower)
  have "u * 100 \<le> of_int 90" using u by simp
  then have hi: "round_half_even (u * 100) \<le> 90" by (rule round_half_even_upper)
  have "predict_dropout_risk d None r = Inr (PFloat (of_int (round_half_even (u * 100)) / 100))"
    by (simp add: predict_dropout_risk_def u_def)
  then show ?thesis using lo hi that by blast
qed

lemma demo_score_at:
  "predict_dropout_risk d None 0 = Inr (PFloat 0.1)"
  "predict_dropout_risk d None (1/4) = Inr (PFloat 0.3)"
  "predict_dropout_risk d None (1/2) = Inr (PFloat 0.5)"
  by (simp_all add: predict_dropout_risk_def np_random_uniform_def round_half_even_def)

text \<open>
  C7. Without a capability, every call returns a value in \<open>[0.1, 0.9]\<close> that has two
  decimal places, whatever the generator draws from \<open>[0, 1)\<close>; the value follows the
  draw, it is not a constant (the draws 0 and 1/2 give 0.1 and 0.5).
\<close>

theorem C7_demo_range:
  "(0 \<le> r \<and> r < 1 \<longrightarrow>
      (\<exists>x. predict_dropout_risk d None r = Inr (PFloat x)
            \<and> 0.1 \<le> x \<and> x \<le> 0.9 \<and> of_int \<lfloor>x * 100\<rfloor> = x * 100))
   \<and> predict_dropout_risk d None 0 = Inr (PFloat 0.1)
   \<and> predict_dropout_risk d None (1/2) = Inr (PFloat 0.5)"
proof (intro conjI impI)
  assume "0 \<le> r \<and> r < 1"
  then obtain n where n: "predict_dropout_risk d None r = Inr (PFloat (of_int n / 100))"
    "10 \<le> n" "n \<le> 90"
    using demo_score [of r d] by blast
  have "(0.1::real) \<le> of_int n / 100" "of_int n / 100 \<le> (0.9::real)"
    using n(2,3) by simp_all
  then show "\<exists>x. predict_dropout_risk d None r = Inr (PFloat x)
            \<and> 0.1 \<le> x \<and> x \<le> 0.9 \<and> of_int \<lfloor>x * 100\<rfloor> = x * 100"
    using n(1) by (intro exI [of _ "of_int n / 100"]) simp
qed (simp_all add: demo_score_at)

theorem C7_demo_range_witness:
  "(0::real) \<le> 1/4 \<and> (1/4::real) < 1
   \<and> predict_dropout_risk Map.empty None (1/4) = Inr (PFloat 0.3)
   \<and> (0.1::real) \<le> 0.3 \<and> (0.3::real) \<le> 0.9"
  using C7_demo_range [of "1/4" Map.empty] by (simp add: demo_score_at)

lemma build_features_empty: "build_features Map.empty = Inl (KeyError ''gpa'')"
  by (simp add: build_features_def features_def bind_result_def dict_getitem_def)

text \<open>
  C10. Without a capability the function returns before it reads the record: the result
  is the same for any two records, it is never an exception, and a record that lacks
  every required field or holds values of the wrong type, for which feature construction
  raises, still gets a demo score.
\<close>

theorem C10_demo_ignores_record:
  "predict_dropout_risk d None r = predict_dropout_risk d' None r
   \<and> (\<exists>x. predict_dropout_risk d None r = Inr (PFloat x))
   \<and> build_features Map.empty = Inl (KeyError ''gpa'')
   \<and> predict_dropout_risk Map.empty None (1/4) = Inr (PFloat 0.3)
   \<and> predict_dropout_risk [''gpa'' \<mapsto> PStr ''high'', ''attendance'' \<mapsto> PNone] None (1/4)
       = Inr (PFloat 0.3)"
proof (intro conjI)
  show "predict_dropout_risk d None r = predict_dropout_risk d' None r"
    by (simp add: predict_dropout_risk_def)
  show "\<exists>x. predict_dropout_risk d None r = Inr (PFloat x)"
    by (simp only: predict_dropout_risk_def option.simps py_round.simps) blast
qed (simp_all add: build_features_empty demo_score_at)


section \<open>Feature construction: claim C4\<close>

lemma features_columns:
  "features d = Inr row \<Longrightarrow> map fst row = expected_features"
  by (auto simp: features_def bind_result_def expected_features_def Let_def split: sum.splits)

lemma select_columns_features:
  "features d = Inr row \<Longrightarrow> select_columns row expected_features = Inr (map snd row)"
  by (auto simp: features_def bind_result_def expected_features_def Let_def split: sum.splits)

lemma build_features_eq:
  "build_features d = bind_result (features d) (\<lambda>row. Inr (map snd row))"
  by (cases "features d") (simp_all add: build_features_def bind_result_def select_columns_features)

lemma build_features_example: "build_features example_record = Inr example_features"
  by (simp add: build_features_eq features_def bind_result_def dict_get_def dict_getitem_def
      example_record_def example_features_def course_mapping_def float_overflow_bound_def)

text \<open>
  An int income beyond the range of a float is not encoded: the first division raises.
\<close>

lemma build_features_overflow:
  "build_features (example_record(''parental_income'' \<mapsto> PInt (10 ^ 400))) = Inl OverflowError"
  by (simp add: build_features_def features_def bind_result_def dict_get_def dict_getitem_def
      example_record_def float_overflow_bound_def)

text \<open>
  C4. For every valid record (the required fields present and numbers, income and age
  numbers when given, the income divided by 50000 in the range of a float, which every
  float income is) feature construction yields exactly 12 numeric fields, named and
  ordered as \<open>expected_features\<close>: Age, Gender = 1, Course_Chosen, Residence_Location,
  Semester_Average_Grade = gpa * 25, Parental_Income_Level = income / 50000, Attendance,
  Marital_Status = 0, Course_Failures, Financial_Stress = income / 200000,
  Attendance_Compliance = 1 iff attendance is at least 75, Rural_Disadvantage =
  Residence_Location = 1 iff the residence is Rural. The example record encodes to
  (20, 1, 1, 0, 80.0, 9.0, 85.5, 0, 1, 2.25, 1, 0).
\<close>

theorem C4_feature_encoding:
  "(d ''gpa'' = Some gpa \<and> d ''attendance'' = Some attendance \<and> d ''failures'' = Some failures
    \<and> is_number gpa \<and> is_number attendance \<and> is_number failures
    \<and> dict_get d ''parental_income'' (PInt 300000) = income \<and> is_number income
    \<and> quotient_in_float_range income 50000
    \<and> dict_get d ''age'' (PInt 20) = age \<and> is_number age
    \<and> dict_get d ''residence'' (PStr ''Urban'') = residence
    \<and> dict_get d ''course'' (PStr ''Computer Science'') = course \<longrightarrow>
    (\<exists>row X. features d = Inr row \<and> map fst row = expected_features
       \<and> build_features d = Inr X \<and> X = map snd row
       \<and> length X = 12 \<and> list_all is_number X
       \<and> map real_of_pyval X =
           [real_of_pyval age,
            1,
            of_int (map_course_to_number course),
            (if residence = PStr ''Rural'' then 1 else 0),
            real_of_pyval gpa * 25,
            real_of_pyval income / 50000,
            real_of_pyval attendance,
            0,
            real_of_pyval failures,
            real_of_pyval income / 200000,
            (if 75 \<le> real_of_pyval attendance then 1 else 0),
            (if residence = PStr ''Rural'' then 1 else 0)]))
   \<and> build_features example_record =
       Inr [PInt 20, PInt 1, PInt 1, PInt 0, PFloat 80.0, PFloat 9.0, PFloat 85.5, PInt 0,
            PInt 1, PFloat 2.25, PInt 1, PInt 0]"
proof (intro conjI impI)
  assume h: "d ''gpa'' = Some gpa \<and> d ''attendance'' = Some attendance \<and> d ''failures'' = Some failures
    \<and> is_number gpa \<and> is_number attendance \<and> is_number failures
    \<and> dict_get d ''parental_income'' (PInt 300000) = income \<and> is_number income
    \<and> quotient_in_float_range income 50000
    \<and> dict_get d ''age'' (PInt 20) = age \<and> is_number age
    \<and> dict_get d ''residence'' (PStr ''Urban'') = residence
    \<and> dict_get d ''course'' (PStr ''Computer Science'') = course"
  obtain grade where grade: "py_mul gpa 25 = Inr grade" "is_number grade"
    "real_of_pyval grade = real_of_pyval gpa * 25"
    using h by (cases gpa) (simp_all add: is_number_def)
  have "quotient_in_float_range income 50000" using h by simp
  then have range: "quotient_in_float_range income 200000"
    by (rule quotient_in_float_range_mono) simp_all
  obtain level where level: "py_truediv income 50000 = Inr level" "is_number level"
    "real_of_pyval level = real_of_pyval income / 50000"
    using h py_truediv_in_range [of income 50000] by (simp add: is_number_def)
  obtain stress where stress: "py_truediv income 200000 = Inr stress" "is_number stress"
    "real_of_pyval stress = real_of_pyval income / 200000"
    using h range py_truediv_in_range [of income 200000] by (simp add: is_number_def)
  have comp: "py_ge attendance 75 = Inr (75 \<le> real_of_pyval attendance)"
    using h by (cases attendance) (simp_all add: is_number_def)
  define row where "row =
    [(''Age'', age), (''Gender'', PInt 1), (''Course_Chosen'', PInt (map_course_to_number course)),
     (''Residence_Location'', PInt (if residence = PStr ''Rural'' then 1 else 0)),
     (''Semester_Average_Grade'', grade), (''Parental_Income_Level'', level),
     (''Attendance'', attendance), (''Marital_Status'', PInt 0), (''Course_Failures'', failures),
     (''Financial_Stress'', stress),
     (''Attendance_Compliance'', PInt (if 75 \<le> real_of_pyval attendance then 1 else 0)),
     (''Rural_Disadvantage'', PInt (if residence = PStr ''Rural'' then 1 else 0))]"
  have row: "features d = Inr row"
    using h grade(1) level(1) stress(1) comp
    by (simp add: features_def bind_result_def dict_getitem_def row_def)
  have X: "build_features d = Inr (map snd row)"
    by (simp add: build_features_eq row bind_result_def)
  have nums: "list_all is_number (map snd row)"
    using h grade(2) level(2) stress(2) by (simp add: row_def is_number_def)
  have vals: "map real_of_pyval (map snd row) =
           [real_of_pyval age, 1, of_int (map_course_to_number course),
            (if residence = PStr ''Rural'' then 1 else 0),
            real_of_pyval gpa * 25, real_of_pyval income / 50000, real_of_pyval attendance,
            0, real_of_pyval failures, real_of_pyval income / 200000,
            (if 75 \<le> real_of_pyval attendance then 1 else 0),
            (if residence = PStr ''Rural'' then 1 else 0)]"
    using grade(3) level(3) stress(3) by (simp add: row_def)
  have len: "length (map snd row) = 12" by (simp add: row_def)
  show "\<exists>row X. features d = Inr row \<and> map fst row = expected_features
       \<and> build_features d = Inr X \<and> X = map snd row
       \<and> length X = 12 \<and> list_all is_number X
       \<and> map real_of_pyval X =
           [real_of_pyval age, 1, of_int (map_course_to_number course),
            (if residence = PStr ''Rural'' then 1 else 0),
            real_of_pyval gpa * 25, real_of_pyval income / 50000, real_of_pyval attendance,
            0, real_of_pyval failures, real_of_pyval income / 200000,
            (if 75 \<le> real_of_pyval attendance then 1 else 0),
            (if residence = PStr ''Rural'' then 1 else 0)]"
  proof (intro exI conjI)
    show "features d = Inr row" by (rule row)
    show "map fst row = expected_features" by (rule features_columns [OF row])
    show "build_features d = Inr (map snd row)" by (rule X)
    show "map snd row = map snd row" by (rule refl)
    show "length (map snd row) = 12" by (rule len)
    show "list_all is_number (map snd row)" by (rule nums)
    show "map real_of_pyval (map snd row) =
           [real_of_pyval age, 1, of_int (map_course_to_number course),
            (if residence = PStr ''Rural'' then 1 else 0),
            real_of_pyval gpa * 25, real_of_pyval income / 50000, real_of_pyval attendance,
            0, real_of_pyval failures, real_of_pyval income / 200000,
            (if 75 \<le> real_of_pyval attendance then 1 else 0),
            (if residence = PStr ''Rural'' then 1 else 0)]" by (rule vals)
  qed
next
  show "build_features example_record =
       Inr [PInt 20, PInt 1, PInt 1, PInt 0, PFloat 80.0, PFloat 9.0, PFloat 85.5, PInt 0,
            PInt 1, PFloat 2.25, PInt 1, PInt 0]"
    using build_features_example by (simp add: example_features_def)
qed


theorem C4_feature_encoding_witness:
  "example_record ''gpa'' = Some (PFloat 3.2)
   \<and> example_record ''attendance'' = Some (PFloat 85.5)
   \<and> example_record ''failures'' = Some (PInt 1)
   \<and> quotient_in_float_range (PInt 450000) 50000
   \<and> (\<exists>X. build_features example_record = Inr X \<and> length X = 12
         \<and> map real_of_pyval X = [20, 1, 1, 0, 80, 9, 85.5, 0, 1, 2.25, 1, 0])"
  using C4_feature_encoding [where d = example_record and gpa = "PFloat 3.2"
      and attendance = "PFloat 85.5" and failures = "PInt 1" and income = "PInt 450000"
      and age = "PInt 20" and residence = "PStr ''Urban''"
      and course = "PStr ''Computer Science''"]
  by (auto simp: example_record_def dict_get_def is_number_def course_mapping_def
      quotient_in_float_range_def float_overflow_bound_def)

section \<open>The paths of the scorer\<close>

lemma constant_model_proba:
  "predict_proba_expr (constant_model a b) X =
     (case a of None \<Rightarrow> Inl AttributeError | Some outcome \<Rightarrow> outcome)"
  by (cases a) (simp_all add: constant_model_def predict_proba_expr_def)

lemma constant_model_value:
  "predict_expr (constant_model a b) X =
     (case b of None \<Rightarrow> Inl AttributeError | Some outcome \<Rightarrow> outcome)"
  by (cases b) (simp_all add: constant_model_def predict_expr_def)

lemma predict_features_raise:
  "build_features d = Inl e \<Longrightarrow> predict_dropout_risk d (Some m) r = Inr (PFloat 0.5)"
  by (simp add: predict_dropout_risk_def try_body_def bind_result_def)

lemma predict_with_features:
  "build_features d = Inr X \<Longrightarrow>
   predict_dropout_risk d (Some m) r =
     (case bind_result (raw_risk_score m X) (\<lambda>s. py_round s 2) of
        Inl e \<Rightarrow> Inr (PFloat 0.5) | Inr v \<Rightarrow> Inr v)"
  by (simp add: predict_dropout_risk_def try_body_def bind_result_def)

lemma raw_risk_score_proba:
  "predict_proba_expr m X = Inr p \<Longrightarrow> raw_risk_score m X = Inr p"
  by (simp add: raw_risk_score_def)

lemma raw_risk_score_raise:
  "predict_proba_expr m X = Inl e \<Longrightarrow> e \<noteq> AttributeError \<Longrightarrow> raw_risk_score m X = Inl e"
  by (cases e) (simp_all add: raw_risk_score_def)

lemma raw_risk_score_fallback:
  "predict_proba_expr m X = Inl AttributeError \<Longrightarrow>
   raw_risk_score m X =
     bind_result (predict_expr m X) (\<lambda>s. bind_result (py_min 1 s) (\<lambda>lo. py_max 0 lo))"
  by (simp add: raw_risk_score_def)

lemma clamp_number:
  "is_number v \<Longrightarrow> bind_result (py_min 1 v) (\<lambda>lo. py_max 0 lo) = Inr (clamp01 v)"
  by (cases v) (auto simp: is_number_def py_min_def py_max_def bind_result_def clamp01_def)

lemma clamp_not_number:
  "\<not> is_number v \<Longrightarrow> bind_result (py_min 1 v) (\<lambda>lo. py_max 0 lo) = Inl TypeError"
  by (cases v) (auto simp: is_number_def py_min_def py_max_def bind_result_def)

lemma py_round_not_number: "\<not> is_number v \<Longrightarrow> py_round v n = Inl TypeError"
  by (cases v) (auto simp: is_number_def)

lemma clamp01_unit: "is_number v \<Longrightarrow> in_unit_interval (clamp01 v)"
  by (cases v) (auto simp: is_number_def clamp01_def in_unit_interval_def)

lemma predict_never_raises: "\<exists>v. predict_dropout_risk d ml r = Inr v"
  by (cases ml) (auto simp: predict_dropout_risk_def split: sum.splits)

lemma predict_proba_path:
  assumes "build_features d = Inr X" "predict_proba_expr m X = Inr p" "is_number p"
  shows "predict_dropout_risk d (Some m) r = py_round p 2"
  using assms
  by (cases p) (simp_all add: predict_with_features raw_risk_score_proba bind_result_def is_number_def)

lemma predict_value_path:
  assumes "build_features d = Inr X" "predict_proba_expr m X = Inl AttributeError"
    "predict_expr m X = Inr v" "is_number v"
  shows "predict_dropout_risk d (Some m) r = py_round (clamp01 v) 2"
proof -
  have "raw_risk_score m X = Inr (clamp01 v)"
    using assms by (simp add: raw_risk_score_fallback bind_result_def clamp_number [unfolded bind_result_def])
  moreover obtain w where "py_round (clamp01 v) 2 = Inr w"
    using py_round_unit [OF clamp01_unit [OF assms(4)]] by blast
  ultimately show ?thesis
    using assms(1) by (simp add: predict_with_features bind_result_def)
qed

lemma predict_scoring_raises:
  assumes "build_features d = Inr X" "raw_risk_score m X = Inl e"
  shows "predict_dropout_risk d (Some m) r = Inr (PFloat 0.5)"
  using assms by (simp add: predict_with_features bind_result_def)

lemma predict_not_number:
  assumes "build_features d = Inr X" "raw_risk_score m X = Inr s" "\<not> is_number s"
  shows "predict_dropout_risk d (Some m) r = Inr (PFloat 0.5)"
  using assms by (simp add: predict_with_features bind_result_def py_round_not_number)

lemma half_is_score: "in_unit_interval (PFloat 0.5) \<and> two_decimals (PFloat 0.5)"
  by (simp add: in_unit_interval_def is_number_def)

lemma predict_proba_raises:
  assumes "build_features d = Inr X" "predict_proba_expr m X = Inl e" "e \<noteq> AttributeError"
  shows "predict_dropout_risk d (Some m) r = Inr (PFloat 0.5)"
  using assms by (simp add: predict_scoring_raises raw_risk_score_raise)

lemma predict_proba_not_number:
  assumes "build_features d = Inr X" "predict_proba_expr m X = Inr p" "\<not> is_number p"
  shows "predict_dropout_risk d (Some m) r = Inr (PFloat 0.5)"
  using assms by (simp add: predict_not_number raw_risk_score_proba)

lemma predict_value_raises:
  assumes "build_features d = Inr X" "predict_proba_expr m X = Inl AttributeError"
    "predict_expr m X = Inl e"
  shows "predict_dropout_risk d (Some m) r = Inr (PFloat 0.5)"
proof -
  have "raw_risk_score m X = Inl e"
    using assms by (simp add: raw_risk_score_fallback bind_result_def)
  then show ?thesis by (rule predict_scoring_raises [OF assms(1)])
qed

lemma predict_value_not_number:
  assumes "build_features d = Inr X" "predict_proba_expr m X = Inl AttributeError"
    "predict_expr m X = Inr v" "\<not> is_number v"
  shows "predict_dropout_risk d (Some m) r = Inr (PFloat 0.5)"
proof -
  have "raw_risk_score m X = Inl TypeError"
    using assms
    by (simp add: raw_risk_score_fallback bind_result_def clamp_not_number [unfolded bind_result_def])
  then show ?thesis by (rule predict_scoring_raises [OF assms(1)])
qed

section \<open>Missing required fields: claim C1\<close>

lemma features_required:
  "features d = Inr row \<Longrightarrow> d ''gpa'' \<noteq> None \<and> d ''attendance'' \<noteq> None \<and> d ''failures'' \<noteq> None"
  by (auto simp: features_def bind_result_def dict_getitem_def Let_def split: sum.splits option.splits)

lemma build_features_required:
  "build_features d = Inr X \<Longrightarrow> d ''gpa'' \<noteq> None \<and> d ''attendance'' \<noteq> None \<and> d ''failures'' \<noteq> None"
  by (cases "features d") (auto simp: build_features_eq bind_result_def dest: features_required)

lemma missing_field_raises:
  assumes "d ''gpa'' = None \<or> d ''attendance'' = None \<or> d ''failures'' = None"
  shows "\<exists>e. build_features d = Inl e"
  using assms build_features_required [of d] by (cases "build_features d") auto

lemma missing_gpa: "d ''gpa'' = None \<Longrightarrow> build_features d = Inl (KeyError ''gpa'')"
  by (simp add: build_features_def features_def bind_result_def dict_getitem_def)

lemma missing_attendance:
  assumes "d ''gpa'' = Some g" "g \<noteq> PNone"
    "is_number (dict_get d ''parental_income'' (PInt 300000))"
    "quotient_in_float_range (dict_get d ''parental_income'' (PInt 300000)) 50000"
    "d ''attendance'' = None"
  shows "build_features d = Inl (KeyError ''attendance'')"
proof -
  obtain grade where g: "py_mul g 25 = Inr grade" using assms(2) by (cases g) simp_all
  obtain inc where i: "py_truediv (dict_get d ''parental_income'' (PInt 300000)) 50000 = Inr inc"
    using py_truediv_in_range [OF assms(3,4)] by simp
  show ?thesis
    using assms(1,5) g i
    by (simp add: build_features_def features_def bind_result_def dict_getitem_def)
qed

lemma missing_failures:
  assumes "d ''gpa'' = Some g" "g \<noteq> PNone"
    "is_number (dict_get d ''parental_income'' (PInt 300000))"
    "quotient_in_float_range (dict_get d ''parental_income'' (PInt 300000)) 50000"
    "d ''attendance'' = Some a" "d ''failures'' = None"
  shows "build_features d = Inl (KeyError ''failures'')"
proof -
  obtain grade where g: "py_mul g 25 = Inr grade" using assms(2) by (cases g) simp_all
  obtain inc where i: "py_truediv (dict_get d ''parental_income'' (PInt 300000)) 50000 = Inr inc"
    using py_truediv_in_range [OF assms(3,4)] by simp
  show ?thesis
    using assms(1,5,6) g i
    by (simp add: build_features_def features_def bind_result_def dict_getitem_def)
qed

text \<open>
  C1 as stated does not hold: a record without \<open>gpa\<close> makes feature construction raise
  \<^verbatim>\<open>KeyError\<close>, but with a capability the function returns 0.5, and without one a
  demo score; no error reaches the caller.
\<close>

theorem C1_missing_field_counterexample:
  "(example_record(''gpa'' := None)) ''gpa'' = None
   \<and> build_features (example_record(''gpa'' := None)) = Inl (KeyError ''gpa'')
   \<and> predict_dropout_risk (example_record(''gpa'' := None))
        (Some (constant_model None (Some (Inr (PFloat 0.8))))) 0 = Inr (PFloat 0.5)
   \<and> predict_dropout_risk (example_record(''gpa'' := None)) None 0 = Inr (PFloat 0.1)"
  by (simp add: missing_gpa predict_features_raise demo_score_at)

text \<open>
  C1, amended. For every record in which a required field (gpa, attendance or failures)
  is absent, feature construction raises, and \<open>predict_dropout_risk\<close> with a capability
  catches the exception and returns the score 0.5. The exception is the \<^verbatim>\<open>KeyError\<close>
  naming the first absent required field, provided the entries evaluated before that
  lookup do not raise (gpa is not None, the income is a number whose quotient by 50000
  is in the range of a float). With or without a capability the function returns a
  score: no error reaches the caller.
\<close>

theorem C1_missing_field_absorbed:
  "(d ''gpa'' = None \<or> d ''attendance'' = None \<or> d ''failures'' = None \<longrightarrow>
      (\<exists>e. build_features d = Inl e)
      \<and> predict_dropout_risk d (Some m) r = Inr (PFloat 0.5))
   \<and> (d ''gpa'' = None \<longrightarrow> build_features d = Inl (KeyError ''gpa''))
   \<and> (d ''gpa'' = Some g \<and> g \<noteq> PNone
        \<and> is_number (dict_get d ''parental_income'' (PInt 300000))
        \<and> quotient_in_float_range (dict_get d ''parental_income'' (PInt 300000)) 50000
        \<and> d ''attendance'' = None \<longrightarrow> build_features d = Inl (KeyError ''attendance''))
   \<and> (d ''gpa'' = Some g \<and> g \<noteq> PNone
        \<and> is_number (dict_get d ''parental_income'' (PInt 300000))
        \<and> quotient_in_float_range (dict_get d ''parental_income'' (PInt 300000)) 50000
        \<and> d ''attendance'' = Some a \<and> d ''failures'' = None \<longrightarrow>
          build_features d = Inl (KeyError ''failures''))
   \<and> (\<exists>w. predict_dropout_risk d ml r = Inr w)"
proof (intro conjI impI)
  assume h: "d ''gpa'' = None \<or> d ''attendance'' = None \<or> d ''failures'' = None"
  then show "\<exists>e. build_features d = Inl e" by (rule missing_field_raises)
  then show "predict_dropout_risk d (Some m) r = Inr (PFloat 0.5)"
    by (auto simp: predict_features_raise)
next
  show "\<exists>w. predict_dropout_risk d ml r = Inr w" by (rule predict_never_raises)
qed (auto simp: missing_gpa missing_attendance missing_failures)


theorem C1_missing_field_absorbed_witness:
  "(example_record(''gpa'' := None)) ''gpa'' = None
   \<and> build_features (example_record(''gpa'' := None)) = Inl (KeyError ''gpa'')
   \<and> predict_dropout_risk (example_record(''gpa'' := None))
        (Some (constant_model None (Some (Inr (PFloat 0.8))))) 0
       = Inr (PFloat 0.5)
   \<and> quotient_in_float_range (PInt 450000) 50000
   \<and> (example_record(''attendance'' := None)) ''attendance'' = None
   \<and> build_features (example_record(''attendance'' := None)) = Inl (KeyError ''attendance'')
   \<and> (example_record(''failures'' := None)) ''failures'' = None
   \<and> build_features (example_record(''failures'' := None)) = Inl (KeyError ''failures'')"
  using
    C1_missing_field_absorbed [where d = "example_record(''gpa'' := None)"
      and m = "constant_model None (Some (Inr (PFloat 0.8)))" and r = 0]
    C1_missing_field_absorbed [where d = "example_record(''attendance'' := None)"
      and g = "PFloat 3.2"]
    C1_missing_field_absorbed [where d = "example_record(''failures'' := None)"
      and g = "PFloat 3.2" and a = "PFloat 85.5"]
  by (simp add: example_record_def dict_get_def is_number_def quotient_in_float_range_def
      float_overflow_bound_def)

section \<open>Failures of the capability: claim C2\<close>

text \<open>
  C2 as stated does not hold: a capability that has \<open>predict_proba\<close>, whose call raises
  \<^verbatim>\<open>AttributeError\<close>, is served by the handler of the inner \<^verbatim>\<open>try\<close>; the result is
  the value of \<open>predict\<close>, here 0.8, not 0.5.
\<close>

theorem C2_scoring_failure_counterexample:
  "predict_proba (constant_model (Some (Inl AttributeError)) (Some (Inr (PFloat 0.8)))) \<noteq> None
   \<and> predict_proba_expr (constant_model (Some (Inl AttributeError)) (Some (Inr (PFloat 0.8))))
        example_features = Inl AttributeError
   \<and> predict_dropout_risk example_record
        (Some (constant_model (Some (Inl AttributeError)) (Some (Inr (PFloat 0.8))))) 0
       = Inr (PFloat 0.8)
   \<and> PFloat 0.8 \<noteq> PFloat 0.5"
  by (simp add: predict_value_path [OF build_features_example] constant_model_proba
      constant_model_value is_number_def clamp01_def round_half_even_def)
    (simp add: constant_model_def)

text \<open>
  C2, amended. \<open>predict_dropout_risk\<close> returns exactly 0.5 whenever the probability
  expression raises an exception other than \<^verbatim>\<open>AttributeError\<close> or yields something that
  is not a number, and whenever, after an \<^verbatim>\<open>AttributeError\<close> of the probability
  expression, the value expression raises any exception or yields something that is not
  a number. It never raises, for any record and capability. An \<^verbatim>\<open>AttributeError\<close> of
  the probability expression is not a failure: the value expression is tried.
\<close>

theorem C2_scoring_failure:
  "(build_features d = Inr X \<longrightarrow>
      (predict_proba_expr m X = Inl e \<and> e \<noteq> AttributeError \<longrightarrow>
         predict_dropout_risk d (Some m) r = Inr (PFloat 0.5))
      \<and> (predict_proba_expr m X = Inr p \<and> \<not> is_number p \<longrightarrow>
         predict_dropout_risk d (Some m) r = Inr (PFloat 0.5))
      \<and> (predict_proba_expr m X = Inl AttributeError \<and> predict_expr m X = Inl e' \<longrightarrow>
         predict_dropout_risk d (Some m) r = Inr (PFloat 0.5))
      \<and> (predict_proba_expr m X = Inl AttributeError \<and> predict_expr m X = Inr v
          \<and> \<not> is_number v \<longrightarrow>
         predict_dropout_risk d (Some m) r = Inr (PFloat 0.5)))
   \<and> (\<exists>w. predict_dropout_risk d ml r = Inr w)"
proof (intro conjI impI)
  assume X: "build_features d = Inr X"
    and "predict_proba_expr m X = Inl e \<and> e \<noteq> AttributeError"
  then have "raw_risk_score m X = Inl e" by (simp add: raw_risk_score_raise)
  then show "predict_dropout_risk d (Some m) r = Inr (PFloat 0.5)"
    by (rule predict_scoring_raises [OF X])
next
  assume X: "build_features d = Inr X"
    and "predict_proba_expr m X = Inr p \<and> \<not> is_number p"
  then have "raw_risk_score m X = Inr p" "\<not> is_number p"
    by (simp_all add: raw_risk_score_proba)
  then show "predict_dropout_risk d (Some m) r = Inr (PFloat 0.5)"
    by (rule predict_not_number [OF X])
next
  assume X: "build_features d = Inr X"
    and "predict_proba_expr m X = Inl AttributeError \<and> predict_expr m X = Inl e'"
  then have "raw_risk_score m X = Inl e'"
    by (simp add: raw_risk_score_fallback bind_result_def)
  then show "predict_dropout_risk d (Some m) r = Inr (PFloat 0.5)"
    by (rule predict_scoring_raises [OF X])
next
  assume X: "build_features d = Inr X"
    and "predict_proba_expr m X = Inl AttributeError \<and> predict_expr m X = Inr v
      \<and> \<not> is_number v"
  then have "raw_risk_score m X = Inl TypeError"
    by (simp add: raw_risk_score_fallback bind_result_def clamp_not_number [unfolded bind_result_def])
  then show "predict_dropout_risk d (Some m) r = Inr (PFloat 0.5)"
    by (rule predict_scoring_raises [OF X])
next
  show "\<exists>w. predict_dropout_risk d ml r = Inr w" by (rule predict_never_raises)
qed

theorem C2_scoring_failure_witness:
  "build_features example_record = Inr example_features
   \<and> predict_dropout_risk example_record
        (Some (constant_model (Some (Inl ValueError)) (Some (Inr (PFloat 0.8))))) 0 = Inr (PFloat 0.5)
   \<and> predict_dropout_risk example_record
        (Some (constant_model (Some (Inr (PStr ''high''))) (Some (Inr (PFloat 0.8))))) 0 = Inr (PFloat 0.5)
   \<and> predict_dropout_risk example_record
        (Some (constant_model None (Some (Inl IndexError)))) 0
       = Inr (PFloat 0.5)
   \<and> predict_dropout_risk example_record
        (Some (constant_model None (Some (Inr PNone)))) 0
       = Inr (PFloat 0.5)"
  using
    C2_scoring_failure [where d = example_record and X = example_features and e = ValueError
      and r = 0
      and m = "(constant_model (Some (Inl ValueError)) (Some (Inr (PFloat 0.8))))"]
    C2_scoring_failure [where d = example_record and X = example_features
      and p = "PStr ''high''" and r = 0
      and m = "(constant_model (Some (Inr (PStr ''high''))) (Some (Inr (PFloat 0.8))))"]
    C2_scoring_failure [where d = example_record and X = example_features
      and e' = IndexError and r = 0
      and m = "(constant_model None (Some (Inl IndexError)))"]
    C2_scoring_failure [where d = example_record and X = example_features
      and v = PNone and r = 0
      and m = "(constant_model None (Some (Inr PNone)))"]
  by (simp add: build_features_example constant_model_proba constant_model_value is_number_def)

section \<open>The range of the score: claims C5 and C6\<close>

text \<open>
  C5 as stated does not hold: the probability path rounds but does not clamp, so a
  capability whose probability expression yields 1.7 gets the score 1.7.
\<close>

theorem C5_score_range_counterexample:
  "predict_dropout_risk example_record
     (Some (constant_model (Some (Inr (PFloat 1.7))) None)) 0
     = Inr (PFloat 1.7)
   \<and> \<not> in_unit_interval (PFloat 1.7)"
  by (simp add: predict_proba_path [OF build_features_example] constant_model_proba
      is_number_def in_unit_interval_def round_half_even_def)

text \<open>
  C5, amended. For every record, every capability or none, and every draw of the
  generator from \<open>[0, 1)\<close>, the function returns a number in \<open>[0, 1]\<close> with two decimal
  places, in demo mode, on the value path and on the failure path; on the probability
  path too, provided the number the capability gives there lies in \<open>[0, 1]\<close>.
\<close>

theorem C5_score_range:
  "0 \<le> r \<and> r < 1
   \<and> (\<forall>m X p. ml = Some m \<and> build_features d = Inr X \<and> predict_proba_expr m X = Inr p
         \<and> is_number p \<longrightarrow> in_unit_interval p) \<longrightarrow>
   (\<exists>v. predict_dropout_risk d ml r = Inr v \<and> in_unit_interval v \<and> two_decimals v)"
proof (intro impI)
  assume h: "0 \<le> r \<and> r < 1
   \<and> (\<forall>m X p. ml = Some m \<and> build_features d = Inr X \<and> predict_proba_expr m X = Inr p
         \<and> is_number p \<longrightarrow> in_unit_interval p)"
  let ?ok = "\<lambda>ml. \<exists>v. predict_dropout_risk d ml r = Inr v \<and> in_unit_interval v \<and> two_decimals v"
  show "?ok ml"
  proof (cases ml)
    case None
    obtain n where n: "predict_dropout_risk d None r = Inr (PFloat (of_int n / 100))"
      "10 \<le> n" "n \<le> 90"
      using h demo_score [of r d] by blast
    have "in_unit_interval (PFloat (of_int n / 100)) \<and> two_decimals (PFloat (of_int n / 100))"
      using n(2,3) by (simp add: in_unit_interval_def is_number_def)
    then show ?thesis using n(1) None by blast
  next
    case (Some m)
    have half: "predict_dropout_risk d (Some m) r = Inr (PFloat 0.5) \<Longrightarrow> ?ok (Some m)"
      using half_is_score by simp
    have rounded: "\<And>s. in_unit_interval s \<Longrightarrow>
        predict_dropout_risk d (Some m) r = py_round s 2 \<Longrightarrow> ?ok (Some m)"
      using py_round_unit by fastforce
    have "?ok (Some m)"
    proof (cases "build_features d")
      case (Inl e)
      then show ?thesis by (intro half predict_features_raise)
    next
      case (Inr X)
      show ?thesis
      proof (cases "predict_proba_expr m X")
        case (Inr p)
        show ?thesis
        proof (cases "is_number p")
          case True
          then have "in_unit_interval p" using h Some \<open>build_features d = Inr X\<close> Inr by blast
          then show ?thesis
            using predict_proba_path [OF \<open>build_features d = Inr X\<close> Inr True] by (rule rounded)
        next
          case False
          then show ?thesis
            by (intro half predict_proba_not_number [OF \<open>build_features d = Inr X\<close> Inr])
        qed
      next
        case (Inl e)
        show ?thesis
        proof (cases "e = AttributeError")
          case False
          then show ?thesis
            by (intro half predict_proba_raises [OF \<open>build_features d = Inr X\<close> Inl])
        next
          case True
          then have attr: "predict_proba_expr m X = Inl AttributeError" using Inl by simp
          show ?thesis
          proof (cases "predict_expr m X")
            case (Inl e')
            then show ?thesis
              by (intro half predict_value_raises [OF \<open>build_features d = Inr X\<close> attr])
          next
            case (Inr v)
            show ?thesis
            proof (cases "is_number v")
              case True
              show ?thesis
                using clamp01_unit [OF True]
                  predict_value_path [OF \<open>build_features d = Inr X\<close> attr Inr True]
                by (rule rounded)
            next
              case False
              then show ?thesis
                by (intro half predict_value_not_number [OF \<open>build_features d = Inr X\<close> attr Inr])
            qed
          qed
        qed
      qed
    qed
    then show ?thesis using Some by simp
  qed
qed


theorem C5_score_range_witness:
  "(0::real) \<le> 0 \<and> (0::real) < 1
   \<and> predict_dropout_risk example_record
        (Some (constant_model (Some (Inr (PFloat 0.837))) None)) 0
       = Inr (PFloat 0.84)
   \<and> in_unit_interval (PFloat 0.84) \<and> two_decimals (PFloat 0.84)"
proof -
  have "predict_dropout_risk example_record
        (Some (constant_model (Some (Inr (PFloat 0.837))) None)) 0
       = Inr (PFloat 0.84)"
    by (simp add: predict_proba_path [OF build_features_example] constant_model_proba
        is_number_def round_half_even_def)
  then show ?thesis
    using C5_score_range [where r = 0 and d = example_record
        and ml = "Some (constant_model (Some (Inr (PFloat 0.837))) None)"]
    by (auto simp: constant_model_proba in_unit_interval_def is_number_def)
qed

text \<open>
  C6. When the probability expression raises \<^verbatim>\<open>AttributeError\<close> (a capability of the
  value shape) and the value expression yields a number, that number is clamped and then
  rounded: below 0 the result is 0 (the literal of \<^verbatim>\<open>max\<close>), above 1 it is 1, and in
  every case it lies in \<open>[0, 1]\<close> with two decimal places.
\<close>

theorem C6_value_clamped:
  "build_features d = Inr X \<and> predict_proba_expr m X = Inl AttributeError
   \<and> predict_expr m X = Inr v \<and> is_number v \<longrightarrow>
     (real_of_pyval v < 0 \<longrightarrow> predict_dropout_risk d (Some m) r = Inr (PInt 0))
     \<and> (1 < real_of_pyval v \<longrightarrow> predict_dropout_risk d (Some m) r = Inr (PInt 1))
     \<and> predict_dropout_risk d (Some m) r = py_round (clamp01 v) 2
     \<and> (\<exists>w. predict_dropout_risk d (Some m) r = Inr w \<and> in_unit_interval w
           \<and> two_decimals w)"
proof (intro impI)
  assume h: "build_features d = Inr X \<and> predict_proba_expr m X = Inl AttributeError
   \<and> predict_expr m X = Inr v \<and> is_number v"
  then have eq: "predict_dropout_risk d (Some m) r = py_round (clamp01 v) 2"
    by (simp add: predict_value_path)
  have unit: "in_unit_interval (clamp01 v)" using h by (simp add: clamp01_unit)
  have lo: "real_of_pyval v < 0 \<longrightarrow> py_round (clamp01 v) 2 = Inr (PInt 0)"
    by (simp add: clamp01_def)
  have hi: "1 < real_of_pyval v \<longrightarrow> py_round (clamp01 v) 2 = Inr (PInt 1)"
    by (simp add: clamp01_def)
  show "(real_of_pyval v < 0 \<longrightarrow> predict_dropout_risk d (Some m) r = Inr (PInt 0))
     \<and> (1 < real_of_pyval v \<longrightarrow> predict_dropout_risk d (Some m) r = Inr (PInt 1))
     \<and> predict_dropout_risk d (Some m) r = py_round (clamp01 v) 2
     \<and> (\<exists>w. predict_dropout_risk d (Some m) r = Inr w \<and> in_unit_interval w
           \<and> two_decimals w)"
    using eq lo hi py_round_unit [OF unit] by simp
qed

theorem C6_value_clamped_witness:
  "build_features example_record = Inr example_features
   \<and> real_of_pyval (PFloat (- 0.3)) < 0
   \<and> predict_dropout_risk example_record
        (Some (constant_model None (Some (Inr (PFloat (- 0.3)))))) 0
       = Inr (PInt 0)
   \<and> 1 < real_of_pyval (PFloat 1.8)
   \<and> predict_dropout_risk example_record
        (Some (constant_model None (Some (Inr (PFloat 1.8))))) 0
       = Inr (PInt 1)"
  using
    C6_value_clamped [where d = example_record and X = example_features
      and v = "PFloat (- 0.3)" and r = 0
      and m = "constant_model None (Some (Inr (PFloat (- 0.3))))"]
    C6_value_clamped [where d = example_record and X = example_features
      and v = "PFloat 1.8" and r = 0
      and m = "(constant_model None (Some (Inr (PFloat 1.8))))"]
  by (simp add: build_features_example constant_model_proba constant_model_value is_number_def)

section \<open>The fallback to the value shape: claim C9\<close>

text \<open>
  C9 as stated does not hold: the fallback is not only for a capability without
  probability output. A capability that has \<open>predict_proba\<close>, whose call raises
  \<^verbatim>\<open>AttributeError\<close>, gets the clamped and rounded value of \<open>predict\<close>.
\<close>

theorem C9_shape_fallback_counterexample:
  "predict_proba (constant_model (Some (Inl AttributeError)) (Some (Inr (PFloat 0.2)))) \<noteq> None
   \<and> predict_dropout_risk example_record
        (Some (constant_model (Some (Inl AttributeError)) (Some (Inr (PFloat 0.2))))) 0
       = Inr (PFloat 0.2)
   \<and> predict_dropout_risk example_record
        (Some (constant_model (Some (Inl AttributeError)) (Some (Inr (PFloat 1.9))))) 0
       = Inr (PInt 1)"
  by (simp add: predict_value_path [OF build_features_example] constant_model_proba
      constant_model_value is_number_def clamp01_def round_half_even_def)
    (simp add: constant_model_def)

text \<open>
  C9, amended. The probability expression is tried first: when it yields a number, the
  score is that number rounded. The value expression is consulted exactly when the
  probability expression raises \<^verbatim>\<open>AttributeError\<close>, as it does for a capability without
  \<open>predict_proba\<close>: otherwise replacing \<open>predict\<close> changes nothing. This fallback is not
  the failure path: when the value expression yields a number, the score is that number
  clamped and rounded.
\<close>

theorem C9_shape_fallback:
  "(build_features d = Inr X \<longrightarrow>
      (predict_proba_expr m X = Inr p \<and> is_number p \<longrightarrow>
         predict_dropout_risk d (Some m) r = py_round p 2)
      \<and> (predict_proba_expr m X \<noteq> Inl AttributeError \<longrightarrow>
         predict_dropout_risk d (Some (m\<lparr>predict := g\<rparr>)) r
           = predict_dropout_risk d (Some m) r)
      \<and> (predict_proba_expr m X = Inl AttributeError \<and> predict_expr m X = Inr v
          \<and> is_number v \<longrightarrow>
         predict_dropout_risk d (Some m) r = py_round (clamp01 v) 2))
   \<and> (predict_proba m = None \<longrightarrow> predict_proba_expr m X = Inl AttributeError)"
proof (intro conjI impI)
  assume "build_features d = Inr X" "predict_proba_expr m X = Inr p \<and> is_number p"
  then show "predict_dropout_risk d (Some m) r = py_round p 2"
    by (simp add: predict_proba_path)
next
  assume X: "build_features d = Inr X" and ne: "predict_proba_expr m X \<noteq> Inl AttributeError"
  have same: "predict_proba_expr (m\<lparr>predict := g\<rparr>) X = predict_proba_expr m X"
    by (simp add: predict_proba_expr_def)
  have "raw_risk_score (m\<lparr>predict := g\<rparr>) X = raw_risk_score m X"
  proof (cases "predict_proba_expr m X")
    case (Inl e)
    then have "e \<noteq> AttributeError" using ne by simp
    then show ?thesis using Inl same by (simp add: raw_risk_score_raise)
  next
    case (Inr p)
    then show ?thesis using same by (simp add: raw_risk_score_proba)
  qed
  then show "predict_dropout_risk d (Some (m\<lparr>predict := g\<rparr>)) r
           = predict_dropout_risk d (Some m) r"
    using X by (simp add: predict_with_features)
next
  assume "build_features d = Inr X"
    "predict_proba_expr m X = Inl AttributeError \<and> predict_expr m X = Inr v \<and> is_number v"
  then show "predict_dropout_risk d (Some m) r = py_round (clamp01 v) 2"
    by (simp add: predict_value_path)
next
  assume "predict_proba m = None"
  then show "predict_proba_expr m X = Inl AttributeError"
    by (simp add: predict_proba_expr_def)
qed

theorem C9_shape_fallback_witness:
  "build_features example_record = Inr example_features
   \<and> predict_dropout_risk example_record
        (Some (constant_model (Some (Inr (PFloat 0.837))) (Some (Inr (PFloat 0.2))))) 0
       = Inr (PFloat 0.84)
   \<and> predict_dropout_risk example_record
        (Some ((constant_model (Some (Inr (PFloat 0.837))) (Some (Inr (PFloat 0.2))))
          \<lparr>predict := None\<rparr>)) 0
       = Inr (PFloat 0.84)
   \<and> predict_proba (constant_model None (Some (Inr (PFloat 0.333)))) = None
   \<and> predict_dropout_risk example_record
        (Some (constant_model None (Some (Inr (PFloat 0.333))))) 0
       = Inr (PFloat 0.33)"
  using
    C9_shape_fallback [where d = example_record and X = example_features
      and p = "PFloat 0.837" and r = 0 and g = None
      and m = "constant_model (Some (Inr (PFloat 0.837))) (Some (Inr (PFloat 0.2)))"]
    C9_shape_fallback [where d = example_record and X = example_features
      and v = "PFloat 0.333" and r = 0
      and m = "constant_model None (Some (Inr (PFloat 0.333)))"]
  by (simp add: build_features_example constant_model_proba constant_model_value
      is_number_def clamp01_def round_half_even_def)
    (simp add: constant_model_def)

end
